theory Spec2Isabelle
  imports Main
begin

section \<open>Values, exceptions and printed lines\<close>

text \<open>
  The Python values that travel through ports, call arguments and the context
  dictionary. A dict value keeps its items as an association list.
\<close>

datatype pyval =
    PNone
  | PBool bool
  | PInt int
  | PStr string
  | PList "pyval list"
  | PDict "(string \<times> pyval) list"

text \<open>
  The exceptions that occur: the failed import of the protocol SDK, a missing
  dictionary key, an attribute that an object does not have, and any exception raised
  by a component of a chain.
\<close>

datatype exn = ImportError | KeyError string | AttributeError string | Exception string

text \<open>
  One constructor per \<^verbatim>\<open>print\<close> statement of the modelled functions; the arguments
  are the values interpolated into the f-string.
  \<^item> \<open>SDK_not_installed\<close>: "Error: Model Context Protocol SDK not installed."
  \<^item> \<open>Please_install\<close>: "Please install it with: pip install mcp"
  \<^item> \<open>Created_server n\<close>: "Created MCP server: {name}"
  \<^item> \<open>With_dependencies ds\<close>: "With dependencies: {', '.join(dependencies)}"
  \<^item> \<open>Server_not_found\<close>: "Error: MCP server not found in context. Please create a server first."
  \<^item> \<open>Starting_server\<close>: "Starting MCP server..."
  \<^item> \<open>Error_running e\<close>: "Error running MCP server: {e}"
  \<^item> \<open>Warning_tool n\<close>: "Warning: MCP server not found in context when registering tool
    '{name}'. Tool will be registered when server is created." (likewise for
    resources and prompts)
  \<^item> \<open>Registered_tool n\<close>: "Registered tool: {name}" (likewise for resources and prompts)
  \<^item> \<open>Set_tool_result v\<close>: "Set tool result: {result}" (likewise for resources and prompts)
\<close>

datatype msg =
    SDK_not_installed
  | Please_install
  | Created_server string
  | With_dependencies "string list"
  | Server_not_found
  | Starting_server
  | Error_running string
  | Warning_tool "string option"
  | Warning_resource "string option"
  | Warning_prompt "string option"
  | Registered_tool "string option"
  | Registered_resource "string option"
  | Registered_prompt "string option"
  | Set_tool_result pyval
  | Set_resource_result pyval
  | Set_prompt_result pyval

section \<open>Components, server, context\<close>

text \<open>
  A component of a chain. The three result components are those of the source; the
  argument is the value their \<^verbatim>\<open>result\<close> port holds when they execute.
  \<open>Raising e\<close> stands for any component whose \<^verbatim>\<open>execute\<close> raises an exception
  with message \<open>e\<close>.
\<close>

datatype node =
    MCPSetToolResult pyval
  | MCPSetResourceResult pyval
  | MCPSetPromptResult pyval
  | Raising string

text \<open>
  A Define component (\<^verbatim>\<open>MCPDefineTool\<close>, \<^verbatim>\<open>MCPDefineResource\<close> or
  \<^verbatim>\<open>MCPDefinePrompt\<close>). \<open>cid\<close> is the identity of the Python object, \<open>name\<close> the
  value of its \<^verbatim>\<open>name\<close> port (of its \<^verbatim>\<open>path\<close> port for a resource),
  \<open>next_component\<close> the chain of components reached through \<^verbatim>\<open>self.next\<close>: the empty list
  when \<^verbatim>\<open>self.next\<close> is unset. The values of its output ports \<^verbatim>\<open>args\<close> and
  \<^verbatim>\<open>ctx\<close> change at every call and live in the world, under \<open>cid\<close>.
\<close>

record mcp_define =
  cid :: nat
  name :: "string option"
  description :: "string option"
  next_component :: "node list"

text \<open>
  The object stored under \<^verbatim>\<open>'mcp_server'\<close>. The protocol server is an external
  collaborator; the model keeps the registrations the object received, in order: the
  name passed (\<open>None\<close> when the call passed none) and the Define component whose
  handler closure was registered. The source registers through the attributes
  \<^verbatim>\<open>_tool\<close>, \<^verbatim>\<open>_resource\<close> and \<^verbatim>\<open>_prompt\<close> of the object;
  \<open>underscore_api\<close> says whether the object has them.
\<close>

record server =
  fastmcp_name :: string
  fastmcp_dependencies :: "string list"
  underscore_api :: bool
  tools :: "(string option \<times> mcp_define) list"
  resources :: "(string option \<times> mcp_define) list"
  prompts :: "(string option \<times> mcp_define) list"

text \<open>
  \<^verbatim>\<open>FastMCP(name, dependencies=dependencies)\<close>, the only server the source creates.
  The class offers \<^verbatim>\<open>tool\<close>, \<^verbatim>\<open>resource\<close> and \<^verbatim>\<open>prompt\<close>; it has no
  attribute \<^verbatim>\<open>_tool\<close>, \<^verbatim>\<open>_resource\<close> or \<^verbatim>\<open>_prompt\<close>.
\<close>

definition FastMCP :: "string \<Rightarrow> string list \<Rightarrow> server" where
  "FastMCP n ds =
     \<lparr>fastmcp_name = n, fastmcp_dependencies = ds, underscore_api = False,
      tools = [], resources = [], prompts = []\<rparr>"

definition server_tool :: "string option \<Rightarrow> mcp_define \<Rightarrow> server \<Rightarrow> server" where
  "server_tool n h s = s\<lparr>tools := tools s @ [(n, h)]\<rparr>"

definition server_resource :: "string option \<Rightarrow> mcp_define \<Rightarrow> server \<Rightarrow> server" where
  "server_resource n h s = s\<lparr>resources := resources s @ [(n, h)]\<rparr>"

definition server_prompt :: "string option \<Rightarrow> mcp_define \<Rightarrow> server \<Rightarrow> server" where
  "server_prompt n h s = s\<lparr>prompts := prompts s @ [(n, h)]\<rparr>"

text \<open>
  The context dictionary \<^verbatim>\<open>ctx\<close>. The four keys of the source have a field each
  (\<open>None\<close>: the key is absent); \<open>items\<close> holds every other key, among them
  \<^verbatim>\<open>'tool_result'\<close>, \<^verbatim>\<open>'resource_result'\<close> and \<^verbatim>\<open>'prompt_result'\<close>.
\<close>

record ctx_dict =
  mcp_server :: "server option"
  mcp_tools :: "mcp_define list option"
  mcp_resources :: "mcp_define list option"
  mcp_prompts :: "mcp_define list option"
  items :: "string \<rightharpoonup> pyval"

text \<open>
  Everything a call can change: the process-wide context, the printed lines, and the
  values of the output ports \<^verbatim>\<open>args\<close> and \<^verbatim>\<open>ctx\<close> of each Define component.
\<close>

record world =
  ctx :: ctx_dict
  stdout :: "msg list"
  args_value :: "nat \<Rightarrow> pyval"
  ctx_value :: "nat \<Rightarrow> pyval"

definition print :: "msg list \<Rightarrow> world \<Rightarrow> world" where
  "print ms w = w\<lparr>stdout := stdout w @ ms\<rparr>"

text \<open>\<^verbatim>\<open>d.get(k)\<close> of a Python dict: \<^verbatim>\<open>None\<close> when the key is absent.\<close>

definition dict_get :: "(string \<rightharpoonup> pyval) \<Rightarrow> string \<Rightarrow> pyval" where
  "dict_get d k = (case d k of None \<Rightarrow> PNone | Some v \<Rightarrow> v)"

text \<open>
  What a step leaves: the world when it returns (\<open>Inr\<close>), the exception with the world
  at the moment it is raised otherwise (\<open>Inl\<close>): what the step had already changed,
  stays changed.
\<close>

type_synonym outcome = "(exn \<times> world) + world"



text \<open>Truth value of a string port: \<^verbatim>\<open>None\<close> and the empty string are false.\<close>

fun truthy :: "string option \<Rightarrow> bool" where
  "truthy None = False"
| "truthy (Some s) = (s \<noteq> [])"

section \<open>MCPCreateServer and MCPRunServer\<close>

record create_server =
  server_name :: "string option"
  dependencies :: "string list option"

text \<open>
  \<^verbatim>\<open>MCPCreateServer.execute\<close>. The first argument says whether
  \<^verbatim>\<open>from mcp.server.fastmcp import FastMCP\<close> succeeds; when it raises
  \<^verbatim>\<open>ImportError\<close> the handler of the \<^verbatim>\<open>try\<close> prints two lines and returns.
\<close>

definition MCPCreateServer_execute :: "bool \<Rightarrow> create_server \<Rightarrow> world \<Rightarrow> outcome" where
  "MCPCreateServer_execute sdk self w =
     (if \<not> sdk then Inr (print [SDK_not_installed, Please_install] w)
      else
        let deps = (case dependencies self of None \<Rightarrow> [] | Some ds \<Rightarrow> ds);
            n = (case server_name self of
                   None \<Rightarrow> ''xircuits-mcp-server''
                 | Some s \<Rightarrow> if s = [] then ''xircuits-mcp-server'' else s);
            server = FastMCP n deps;
            w1 = print [Created_server n] w;
            w2 = (if deps \<noteq> [] then print [With_dependencies deps] w1 else w1)
        in Inr (w2\<lparr>ctx := (ctx w2)\<lparr>mcp_server := Some server\<rparr>\<rparr>))"

text \<open>
  \<^verbatim>\<open>MCPRunServer.execute\<close>. The three loops over the pending lists have the body
  \<^verbatim>\<open>pass\<close>. \<^verbatim>\<open>server.run()\<close> is the external server's: the first argument is its
  outcome, \<open>None\<close> when it returns and \<open>Some e\<close> when it raises, which the
  \<^verbatim>\<open>except Exception\<close> prints.
\<close>

definition MCPRunServer_execute :: "string option \<Rightarrow> world \<Rightarrow> outcome" where
  "MCPRunServer_execute run_outcome w =
     (case mcp_server (ctx w) of
        None \<Rightarrow> Inr (print [Server_not_found] w)
      | Some server \<Rightarrow>
          let w1 = print [Starting_server] w
          in (case run_outcome of
                None \<Rightarrow> Inr w1
              | Some e \<Rightarrow> Inr (print [Error_running e] w1)))"

text \<open>Sequencing of two steps that may raise: the second runs when the first returned.\<close>

definition and_then :: "outcome \<Rightarrow> (world \<Rightarrow> outcome) \<Rightarrow> outcome" where
  "and_then r f = (case r of Inl ew \<Rightarrow> Inl ew | Inr w \<Rightarrow> f w)"

section \<open>The Define components: init and registration\<close>

text \<open>\<^verbatim>\<open>ctx.get(KEY, [])\<close> and the list that \<^verbatim>\<open>ctx.setdefault(KEY, [])\<close> returns.\<close>

definition pending :: "mcp_define list option \<Rightarrow> mcp_define list" where
  "pending l = (case l of None \<Rightarrow> [] | Some ds \<Rightarrow> ds)"

text \<open>
  \<^verbatim>\<open>MCPDefineTool._register_tool\<close>: \<^verbatim>\<open>ctx[MCP_SERVER_KEY]\<close> raises
  \<^verbatim>\<open>KeyError\<close> without a server. Both branches of \<^verbatim>\<open>if self.name.value\<close>
  start by reading \<^verbatim>\<open>server._tool\<close>, which raises \<^verbatim>\<open>AttributeError\<close> on an
  object without that attribute, before anything is registered or printed. Otherwise
  the handler closure is registered under the name when the name is true, and with no
  name otherwise.
\<close>

definition register_tool :: "mcp_define \<Rightarrow> world \<Rightarrow> outcome" where
  "register_tool self w =
     (case mcp_server (ctx w) of
        None \<Rightarrow> Inl (KeyError ''mcp_server'', w)
      | Some server \<Rightarrow>
          if \<not> underscore_api server then Inl (AttributeError ''_tool'', w)
          else
            let server' = (if truthy (name self) then server_tool (name self) self server
                           else server_tool None self server)
            in Inr (print [Registered_tool (name self)]
                      (w\<lparr>ctx := (ctx w)\<lparr>mcp_server := Some server'\<rparr>\<rparr>)))"

text \<open>
  \<^verbatim>\<open>MCPDefineTool.init\<close>: the component is appended to the pending list before
  \<^verbatim>\<open>_register_tool\<close> is called, so it stays appended when that call raises.
\<close>

definition MCPDefineTool_init :: "mcp_define \<Rightarrow> world \<Rightarrow> outcome" where
  "MCPDefineTool_init self w =
     (let w1 = (if mcp_server (ctx w) = None then print [Warning_tool (name self)] w else w);
          w2 = w1\<lparr>ctx := (ctx w1)\<lparr>mcp_tools := Some (pending (mcp_tools (ctx w1)) @ [self])\<rparr>\<rparr>
      in if mcp_server (ctx w2) \<noteq> None then register_tool self w2 else Inr w2)"

text \<open>
  \<^verbatim>\<open>MCPDefineResource._register_resource\<close>: the path is passed as it is
  (the \<open>name\<close> field holds the \<^verbatim>\<open>path\<close> port).
\<close>

definition register_resource :: "mcp_define \<Rightarrow> world \<Rightarrow> outcome" where
  "register_resource self w =
     (case mcp_server (ctx w) of
        None \<Rightarrow> Inl (KeyError ''mcp_server'', w)
      | Some server \<Rightarrow>
          if \<not> underscore_api server then Inl (AttributeError ''_resource'', w)
          else
            let server' = server_resource (name self) self server
            in Inr (print [Registered_resource (name self)]
                      (w\<lparr>ctx := (ctx w)\<lparr>mcp_server := Some server'\<rparr>\<rparr>)))"

definition MCPDefineResource_init :: "mcp_define \<Rightarrow> world \<Rightarrow> outcome" where
  "MCPDefineResource_init self w =
     (let w1 = (if mcp_server (ctx w) = None then print [Warning_resource (name self)] w else w);
          w2 = w1\<lparr>ctx := (ctx w1)\<lparr>mcp_resources :=
                      Some (pending (mcp_resources (ctx w1)) @ [self])\<rparr>\<rparr>
      in if mcp_server (ctx w2) \<noteq> None then register_resource self w2 else Inr w2)"

text \<open>\<^verbatim>\<open>MCPDefinePrompt._register_prompt\<close>, as for a tool.\<close>

definition register_prompt :: "mcp_define \<Rightarrow> world \<Rightarrow> outcome" where
  "register_prompt self w =
     (case mcp_server (ctx w) of
        None \<Rightarrow> Inl (KeyError ''mcp_server'', w)
      | Some server \<Rightarrow>
          if \<not> underscore_api server then Inl (AttributeError ''_prompt'', w)
          else
            let server' = (if truthy (name self) then server_prompt (name self) self server
                           else server_prompt None self server)
            in Inr (print [Registered_prompt (name self)]
                      (w\<lparr>ctx := (ctx w)\<lparr>mcp_server := Some server'\<rparr>\<rparr>)))"

definition MCPDefinePrompt_init :: "mcp_define \<Rightarrow> world \<Rightarrow> outcome" where
  "MCPDefinePrompt_init self w =
     (let w1 = (if mcp_server (ctx w) = None then print [Warning_prompt (name self)] w else w);
          w2 = w1\<lparr>ctx := (ctx w1)\<lparr>mcp_prompts :=
                      Some (pending (mcp_prompts (ctx w1)) @ [self])\<rparr>\<rparr>
      in if mcp_server (ctx w2) \<noteq> None then register_prompt self w2 else Inr w2)"

section \<open>Chains and the handler closures\<close>

text \<open>
  \<^verbatim>\<open>execute(ctx)\<close> of one component: the three result components store their value
  under their key and print it; the result is the changed dictionary and the lines
  printed, or the exception raised.
\<close>

fun execute :: "node \<Rightarrow> ctx_dict \<Rightarrow> exn + (ctx_dict \<times> msg list)" where
  "execute (MCPSetToolResult v) c =
     Inr (c\<lparr>items := (items c)(''tool_result'' \<mapsto> v)\<rparr>, [Set_tool_result v])"
| "execute (MCPSetResourceResult v) c =
     Inr (c\<lparr>items := (items c)(''resource_result'' \<mapsto> v)\<rparr>, [Set_resource_result v])"
| "execute (MCPSetPromptResult v) c =
     Inr (c\<lparr>items := (items c)(''prompt_result'' \<mapsto> v)\<rparr>, [Set_prompt_result v])"
| "execute (Raising e) c = Inl (Exception e)"

text \<open>
  Modelled from the spec: the graph execution engine \<^verbatim>\<open>run(startNode, context)\<close>
  (\<^verbatim>\<open>SubGraphExecutor(start).do(ctx)\<close> of the component library) executes the
  components of the chain one after the other on the dictionary it is given. An
  exception of a component ends the run and leaves it. The result is the lines printed
  and the final dictionary or the exception.
\<close>

fun SubGraphExecutor_do :: "node list \<Rightarrow> ctx_dict \<Rightarrow> msg list \<times> (exn + ctx_dict)" where
  "SubGraphExecutor_do [] c = ([], Inr c)"
| "SubGraphExecutor_do (n # ns) c =
     (case execute n c of
        Inl e \<Rightarrow> ([], Inl e)
      | Inr (c', out) \<Rightarrow>
          (case SubGraphExecutor_do ns c' of (out', r) \<Rightarrow> (out @ out', r)))"

text \<open>
  \<^verbatim>\<open>tool_handler(*args, **kwargs)\<close>, the closure that \<^verbatim>\<open>_register_tool\<close> registers.
  \<^verbatim>\<open>ctx.copy()\<close> copies the process-wide dictionary as it is when the call starts;
  the call's arguments go to the output ports of the component itself; the chain runs
  on the copy, and no \<^verbatim>\<open>try\<close> surrounds it. The local \<^verbatim>\<open>docstring\<close> is never
  read. The outcome is the value returned or
  the exception that leaves the handler, with the world after the call.
\<close>

definition tool_handler ::
  "mcp_define \<Rightarrow> (string \<times> pyval) list \<Rightarrow> world \<Rightarrow> (exn + pyval) \<times> world" where
  "tool_handler self kwargs w =
     (let tool_ctx = ctx w;
          w1 = w\<lparr>args_value := (args_value w)(cid self := PDict kwargs),
                 ctx_value := (ctx_value w)(cid self := dict_get (map_of kwargs) ''ctx'')\<rparr>
      in if next_component self \<noteq> [] then
           (case SubGraphExecutor_do (next_component self) tool_ctx of
              (out, Inl e) \<Rightarrow> (Inl e, print out w1)
            | (out, Inr tool_ctx') \<Rightarrow>
                (Inr (dict_get (items tool_ctx') ''tool_result''), print out w1))
         else (Inr PNone, w1))"

definition resource_handler ::
  "mcp_define \<Rightarrow> (string \<times> pyval) list \<Rightarrow> world \<Rightarrow> (exn + pyval) \<times> world" where
  "resource_handler self kwargs w =
     (let resource_ctx = ctx w;
          w1 = w\<lparr>args_value := (args_value w)(cid self := PDict kwargs),
                 ctx_value := (ctx_value w)(cid self := dict_get (map_of kwargs) ''ctx'')\<rparr>
      in if next_component self \<noteq> [] then
           (case SubGraphExecutor_do (next_component self) resource_ctx of
              (out, Inl e) \<Rightarrow> (Inl e, print out w1)
            | (out, Inr resource_ctx') \<Rightarrow>
                (Inr (dict_get (items resource_ctx') ''resource_result''), print out w1))
         else (Inr PNone, w1))"

definition prompt_handler ::
  "mcp_define \<Rightarrow> (string \<times> pyval) list \<Rightarrow> world \<Rightarrow> (exn + pyval) \<times> world" where
  "prompt_handler self kwargs w =
     (let prompt_ctx = ctx w;
          w1 = w\<lparr>args_value := (args_value w)(cid self := PDict kwargs),
                 ctx_value := (ctx_value w)(cid self := dict_get (map_of kwargs) ''ctx'')\<rparr>
      in if next_component self \<noteq> [] then
           (case SubGraphExecutor_do (next_component self) prompt_ctx of
              (out, Inl e) \<Rightarrow> (Inl e, print out w1)
            | (out, Inr prompt_ctx') \<Rightarrow>
                (Inr (dict_get (items prompt_ctx') ''prompt_result''), print out w1))
         else (Inr PNone, w1))"

text \<open>
  The server calling a handler it holds: the list the registration is in says which of
  the three closures it is.
\<close>

datatype HandlerKind = Tool | Resource | Prompt

fun invoke ::
  "HandlerKind \<Rightarrow> mcp_define \<Rightarrow> (string \<times> pyval) list \<Rightarrow> world \<Rightarrow> (exn + pyval) \<times> world" where
  "invoke Tool d kwargs w = tool_handler d kwargs w"
| "invoke Resource d kwargs w = resource_handler d kwargs w"
| "invoke Prompt d kwargs w = prompt_handler d kwargs w"

text \<open>The key each closure reads after its chain.\<close>

fun result_key :: "HandlerKind \<Rightarrow> string" where
  "result_key Tool = ''tool_result''"
| "result_key Resource = ''resource_result''"
| "result_key Prompt = ''prompt_result''"

text \<open>A series of calls, one after the other; each outcome is dropped.\<close>

fun serve :: "(HandlerKind \<times> mcp_define \<times> (string \<times> pyval) list) list \<Rightarrow> world \<Rightarrow> world" where
  "serve [] w = w"
| "serve ((k, d, kwargs) # cs) w = serve cs (snd (invoke k d kwargs w))"

text \<open>
  What a chain does to the result keys: the key and value a component stores, the
  values a chain stores under one key, in order, and whether a component raises.
\<close>

fun stores :: "node \<Rightarrow> (string \<times> pyval) option" where
  "stores (MCPSetToolResult v) = Some (''tool_result'', v)"
| "stores (MCPSetResourceResult v) = Some (''resource_result'', v)"
| "stores (MCPSetPromptResult v) = Some (''prompt_result'', v)"
| "stores (Raising e) = None"

fun stored_under :: "string \<Rightarrow> node list \<Rightarrow> pyval list" where
  "stored_under k [] = []"
| "stored_under k (n # ns) =
     (case stores n of
        None \<Rightarrow> stored_under k ns
      | Some (k', v) \<Rightarrow> if k' = k then v # stored_under k ns else stored_under k ns)"

fun raises :: "node \<Rightarrow> bool" where
  "raises (Raising e) = True"
| "raises n = False"

section \<open>Example inputs\<close>

definition world0 :: world where
  "world0 =
     \<lparr>ctx = \<lparr>mcp_server = None, mcp_tools = None, mcp_resources = None, mcp_prompts = None,
             items = Map.empty\<rparr>,
      stdout = [], args_value = (\<lambda>c. PNone), ctx_value = (\<lambda>c. PNone)\<rparr>"

text \<open>The world once a server named \<open>s\<close> has been created in \<open>world0\<close> and nothing printed.\<close>

definition world_s :: world where
  "world_s = world0\<lparr>ctx := (ctx world0)\<lparr>mcp_server := Some (FastMCP ''s'' [])\<rparr>\<rparr>"


definition create_s :: create_server where
  "create_s = \<lparr>server_name = Some ''s'', dependencies = None\<rparr>"

definition create_unnamed :: create_server where
  "create_unnamed = \<lparr>server_name = Some [], dependencies = None\<rparr>"

definition tool_add :: mcp_define where
  "tool_add = \<lparr>cid = 1, name = Some ''add'', description = None,
               next_component = [MCPSetToolResult (PInt 5)]\<rparr>"



definition tool_nochain :: mcp_define where
  "tool_nochain = \<lparr>cid = 3, name = Some ''idle'', description = None, next_component = []\<rparr>"

definition tool_boom :: mcp_define where
  "tool_boom = \<lparr>cid = 4, name = Some ''boom'', description = None,
                next_component = [Raising ''boom'']\<rparr>"

definition resource_profile :: mcp_define where
  "resource_profile = \<lparr>cid = 6, name = Some ''users://{id}/profile'', description = None,
                       next_component = [MCPSetResourceResult (PStr ''42'')]\<rparr>"

definition resource_quiet :: mcp_define where
  "resource_quiet = \<lparr>cid = 7, name = Some ''quiet://x'', description = None,
                     next_component = [MCPSetToolResult (PInt 0)]\<rparr>"

definition tool_late :: mcp_define where
  "tool_late = \<lparr>cid = 8, name = Some ''late'', description = None,
                next_component = [MCPSetToolResult (PInt 1), Raising ''late'']\<rparr>"

definition prompt_greet :: mcp_define where
  "prompt_greet = \<lparr>cid = 9, name = Some ''greet'', description = Some ''Greets'',
                   next_component = [MCPSetPromptResult (PStr ''hello'')]\<rparr>"

definition create_absent :: create_server where
  "create_absent = \<lparr>server_name = None, dependencies = Some [''numpy'']\<rparr>"


section \<open>Chains: completion, result, exception\<close>

lemma execute_completes:
  "\<not> raises n \<Longrightarrow> \<exists>c' out. execute n c = Inr (c', out) \<and> mcp_server c' = mcp_server c"
  by (cases n) auto

lemma do_completes:
  "list_all (\<lambda>n. \<not> raises n) ns \<Longrightarrow> \<exists>out c'. SubGraphExecutor_do ns c = (out, Inr c')"
proof (induction ns arbitrary: c)
  case Nil
  then show ?case by simp
next
  case (Cons n ns)
  from Cons.prems have "\<not> raises n" by simp
  then obtain c1 out1 where e: "execute n c = Inr (c1, out1)"
    using execute_completes by blast
  from Cons.prems have "list_all (\<lambda>n. \<not> raises n) ns" by simp
  then obtain out2 c2 where "SubGraphExecutor_do ns c1 = (out2, Inr c2)"
    using Cons.IH by blast
  with e show ?case by simp
qed

lemma do_result:
  "SubGraphExecutor_do ns c = (out, Inr c') \<Longrightarrow>
     dict_get (items c') k =
       (if stored_under k ns = [] then dict_get (items c) k else last (stored_under k ns))"
proof (induction ns arbitrary: c out)
  case Nil
  then show ?case by simp
next
  case (Cons n ns)
  then show ?case
    by (cases n) (auto simp: dict_get_def split: sum.splits prod.splits if_splits)
qed

lemma do_raises:
  "list_all (\<lambda>n. \<not> raises n) pre \<Longrightarrow>
     \<exists>out. SubGraphExecutor_do (pre @ Raising e # post) c = (out, Inl (Exception e))"
proof (induction pre arbitrary: c)
  case Nil
  then show ?case by simp
next
  case (Cons n pre)
  from Cons.prems have "\<not> raises n" by simp
  then obtain c1 out1 where e: "execute n c = Inr (c1, out1)"
    using execute_completes by blast
  from Cons.prems have "list_all (\<lambda>n. \<not> raises n) pre" by simp
  then obtain out2 where
    "SubGraphExecutor_do (pre @ Raising e # post) c1 = (out2, Inl (Exception e))"
    using Cons.IH by blast
  with e show ?case by simp
qed

lemma invoke_ctx: "ctx (snd (invoke k d kw w)) = ctx w"
  by (cases k)
    (auto simp: tool_handler_def resource_handler_def prompt_handler_def print_def Let_def
       split: prod.splits sum.splits)

lemma serve_ctx: "ctx (serve cs w) = ctx w"
proof (induction cs arbitrary: w)
  case Nil
  then show ?case by simp
next
  case (Cons c cs)
  obtain k d kw where c: "c = (k, d, kw)" by (cases c) auto
  with Cons.IH show ?case by (simp add: invoke_ctx)
qed

lemma invoke_stdout:
  "stdout (snd (invoke k d kw w)) =
     stdout w @ (if next_component d = [] then []
                 else fst (SubGraphExecutor_do (next_component d) (ctx w)))"
  by (cases k)
    (auto simp: tool_handler_def resource_handler_def prompt_handler_def print_def Let_def
       split: prod.splits sum.splits)

lemma invoke_outcome:
  "fst (invoke k d kw w) =
     (if next_component d = [] then Inr PNone
      else (case snd (SubGraphExecutor_do (next_component d) (ctx w)) of
              Inl e \<Rightarrow> Inl e
            | Inr c' \<Rightarrow> Inr (dict_get (items c') (result_key k))))"
  by (cases k)
    (auto simp: tool_handler_def resource_handler_def prompt_handler_def print_def Let_def
       split: prod.splits sum.splits)

lemma invoke_completes:
  assumes "list_all (\<lambda>n. \<not> raises n) (next_component d)"
  shows "fst (invoke k d kw w) =
     Inr (if next_component d = [] then PNone
          else if stored_under (result_key k) (next_component d) = []
               then dict_get (items (ctx w)) (result_key k)
               else last (stored_under (result_key k) (next_component d)))"
proof -
  obtain out c' where r: "SubGraphExecutor_do (next_component d) (ctx w) = (out, Inr c')"
    using do_completes [OF assms] by blast
  show ?thesis
    using do_result [OF r, of "result_key k"] r by (simp add: invoke_outcome)
qed




text \<open>
  C10. A call stores its result in the copy of the context only: after any series of
  calls the process-wide context is what it was, and a later call returns what it would
  have returned without them. When the process-wide context held nothing under the
  kind's key before the calls, a later call whose chain runs to its end and executes no
  result component of that kind returns \<open>None\<close>.
\<close>

theorem results_do_not_leak:
  assumes "items (ctx w) (result_key k) = None"
    and "stored_under (result_key k) (next_component d) = []"
    and "list_all (\<lambda>n. \<not> raises n) (next_component d)"
  shows "ctx (serve cs w) = ctx w
       \<and> fst (invoke k d kw (serve cs w)) = fst (invoke k d kw w)
       \<and> fst (invoke k d kw (serve cs w)) = Inr PNone"
proof -
  have c: "ctx (serve cs w) = ctx w" by (rule serve_ctx)
  have "fst (invoke k d kw (serve cs w)) = fst (invoke k d kw w)"
    by (simp add: invoke_outcome c)
  moreover have "fst (invoke k d kw w) = Inr PNone"
    using invoke_completes [OF assms(3), of k kw w] assms(1,2) by (simp add: dict_get_def)
  ultimately show ?thesis using c by simp
qed

theorem results_do_not_leak_witness:
  "items (ctx world_s) ''resource_result'' = None
   \<and> stored_under ''resource_result'' (next_component resource_quiet) = []
   \<and> list_all (\<lambda>n. \<not> raises n) (next_component resource_quiet)
   \<and> ctx (serve [(Resource, resource_profile, []), (Tool, tool_boom, [])] world_s) = ctx world_s
   \<and> fst (resource_handler resource_quiet []
            (serve [(Resource, resource_profile, []), (Tool, tool_boom, [])] world_s)) = Inr PNone"
proof -
  have h1: "items (ctx world_s) (result_key Resource) = None"
    by (simp add: world_s_def world0_def)
  have h2: "stored_under (result_key Resource) (next_component resource_quiet) = []"
    by (simp add: resource_quiet_def)
  have h3: "list_all (\<lambda>n. \<not> raises n) (next_component resource_quiet)"
    by (simp add: resource_quiet_def)
  note t = results_do_not_leak [OF h1 h2 h3,
      of "[(Resource, resource_profile, []), (Tool, tool_boom, [])]" "[]"]
  from t have "ctx (serve [(Resource, resource_profile, []), (Tool, tool_boom, [])] world_s) = ctx world_s"
    by (rule conjunct1)
  moreover from t have "fst (invoke Resource resource_quiet []
      (serve [(Resource, resource_profile, []), (Tool, tool_boom, [])] world_s)) = Inr PNone"
    by blast
  ultimately show ?thesis using h1 h2 h3 by (simp del: serve.simps)
qed

lemma invoke_stores_args:
  "args_value (snd (invoke k d kw w)) (cid d) = PDict kw"
  by (cases k)
    (auto simp: tool_handler_def resource_handler_def prompt_handler_def print_def Let_def
       split: prod.splits sum.splits)

section \<open>Server creation\<close>

lemma create_server_leaves_pending:
  "\<exists>w' s. MCPCreateServer_execute True self w = Inr w' \<and> mcp_server (ctx w') = Some s
     \<and> tools s = [] \<and> resources s = [] \<and> prompts s = []
     \<and> mcp_tools (ctx w') = mcp_tools (ctx w)
     \<and> mcp_resources (ctx w') = mcp_resources (ctx w)
     \<and> mcp_prompts (ctx w') = mcp_prompts (ctx w)"
  by (simp add: MCPCreateServer_execute_def Let_def print_def FastMCP_def)

lemma run_server_leaves_ctx:
  "\<exists>w'. MCPRunServer_execute r w = Inr w' \<and> ctx w' = ctx w"
  by (simp add: MCPRunServer_execute_def Let_def print_def split: option.splits)

text \<open>
  C2. A tool defined before the server exists is put on the pending list with the
  warning that it will be registered when the server is created. Creating the server and
  then running it registers nothing: the server created holds no tool, while the pending
  list still holds the component.
\<close>

theorem deferred_tool_not_registered:
  "and_then (and_then (MCPDefineTool_init tool_add world0) (MCPCreateServer_execute True create_s))
      (MCPRunServer_execute None) =
   Inr (world0\<lparr>ctx := (ctx world0)\<lparr>mcp_tools := Some [tool_add],
                                     mcp_server := Some (FastMCP ''s'' [])\<rparr>,
               stdout := [Warning_tool (Some ''add''), Created_server ''s'', Starting_server]\<rparr>)
   \<and> tools (FastMCP ''s'' []) = []"
  by (simp add: and_then_def MCPDefineTool_init_def MCPCreateServer_execute_def
      MCPRunServer_execute_def world0_def create_s_def tool_add_def print_def pending_def
      FastMCP_def Let_def)

text \<open>
  C8, as the code has it. With the protocol library missing, server creation raises
  nothing: it prints two lines and returns, and nothing else of the world changes (the
  server slot and the pending lists are what they were).
\<close>

theorem import_failure_returns:
  "\<exists>w'. MCPCreateServer_execute False self w = Inr w' \<and> ctx w' = ctx w
         \<and> stdout w' = stdout w @ [SDK_not_installed, Please_install]
         \<and> args_value w' = args_value w \<and> ctx_value w' = ctx_value w"
  by (simp add: MCPCreateServer_execute_def print_def)

text \<open>
  C8, as stated, fails: with the library missing the call for a server named \<open>s\<close>
  returns normally, with the two printed lines, where the claim has it fail with an
  error.
\<close>

theorem import_failure_counterexample:
  "MCPCreateServer_execute False create_s world0 =
     Inr (world0\<lparr>stdout := [SDK_not_installed, Please_install]\<rparr>)"
  by (simp add: MCPCreateServer_execute_def print_def world0_def)

text \<open>
  C9. With the library present and a server name that is empty or absent, server
  creation returns and stores a server named \<open>xircuits-mcp-server\<close>, with the given
  dependencies.
\<close>

theorem empty_name_gets_default:
  assumes "\<not> truthy (server_name self)"
  shows "\<exists>w'. MCPCreateServer_execute True self w = Inr w'
           \<and> mcp_server (ctx w') = Some (FastMCP ''xircuits-mcp-server''
                (case dependencies self of None \<Rightarrow> [] | Some ds \<Rightarrow> ds))"
  using assms
  by (cases "server_name self")
    (simp_all add: MCPCreateServer_execute_def print_def Let_def)

theorem empty_name_gets_default_witness:
  "\<not> truthy (server_name create_unnamed) \<and> \<not> truthy (server_name create_absent)
   \<and> (\<exists>w'. MCPCreateServer_execute True create_unnamed world0 = Inr w'
           \<and> mcp_server (ctx w') = Some (FastMCP ''xircuits-mcp-server'' []))
   \<and> (\<exists>w'. MCPCreateServer_execute True create_absent world0 = Inr w'
           \<and> mcp_server (ctx w') = Some (FastMCP ''xircuits-mcp-server'' [''numpy'']))"
proof -
  have h1: "\<not> truthy (server_name create_unnamed)" by (simp add: create_unnamed_def)
  have h2: "\<not> truthy (server_name create_absent)" by (simp add: create_absent_def)
  have d: "dependencies create_unnamed = None" "dependencies create_absent = Some [''numpy'']"
    by (simp_all add: create_unnamed_def create_absent_def)
  show ?thesis
    using empty_name_gets_default [OF h1, of world0] empty_name_gets_default [OF h2, of world0]
      h1 h2 d by simp
qed

section \<open>Registration with the server present\<close>




text \<open>
  C3. With the server that \<^verbatim>\<open>MCPCreateServer\<close> created in the context, \<open>init\<close> of
  a tool, a resource or a prompt appends the component to its pending list and then
  raises \<^verbatim>\<open>AttributeError\<close> at \<^verbatim>\<open>server._tool\<close>, \<^verbatim>\<open>server._resource\<close> or
  \<^verbatim>\<open>server._prompt\<close>: the server has received no registration and the line
  "Registered ..." is not printed.
\<close>

theorem init_raises_on_created_server:
  "and_then (MCPCreateServer_execute True create_s world0) (MCPDefineTool_init tool_add) =
     Inl (AttributeError ''_tool'',
          world0\<lparr>ctx := (ctx world0)\<lparr>mcp_server := Some (FastMCP ''s'' []),
                                       mcp_tools := Some [tool_add]\<rparr>,
                 stdout := [Created_server ''s'']\<rparr>)
   \<and> and_then (MCPCreateServer_execute True create_s world0)
        (MCPDefineResource_init resource_profile) =
     Inl (AttributeError ''_resource'',
          world0\<lparr>ctx := (ctx world0)\<lparr>mcp_server := Some (FastMCP ''s'' []),
                                       mcp_resources := Some [resource_profile]\<rparr>,
                 stdout := [Created_server ''s'']\<rparr>)
   \<and> and_then (MCPCreateServer_execute True create_s world0) (MCPDefinePrompt_init prompt_greet) =
     Inl (AttributeError ''_prompt'',
          world0\<lparr>ctx := (ctx world0)\<lparr>mcp_server := Some (FastMCP ''s'' []),
                                       mcp_prompts := Some [prompt_greet]\<rparr>,
                 stdout := [Created_server ''s'']\<rparr>)
   \<and> tools (FastMCP ''s'' []) = [] \<and> resources (FastMCP ''s'' []) = []
   \<and> prompts (FastMCP ''s'' []) = []"
  by (simp add: and_then_def MCPCreateServer_execute_def MCPDefineTool_init_def
      MCPDefineResource_init_def MCPDefinePrompt_init_def register_tool_def
      register_resource_def register_prompt_def world0_def create_s_def print_def
      pending_def FastMCP_def Let_def)




section \<open>Calls: exceptions and missing chains\<close>

text \<open>
  C5, as the code has it. An exception raised by a component of the chain is not caught
  by the handler: it leaves the handler function, which returns no result. The handler
  prints nothing of its own (the printed lines are those of the chain's components
  before the exception), and the process-wide context is unchanged.
\<close>

theorem chain_exception_leaves_handler:
  assumes "next_component d = pre @ Raising e # post"
    and "list_all (\<lambda>n. \<not> raises n) pre"
  shows "fst (invoke k d kw w) = Inl (Exception e)
       \<and> ctx (snd (invoke k d kw w)) = ctx w
       \<and> stdout (snd (invoke k d kw w)) =
           stdout w @ fst (SubGraphExecutor_do (next_component d) (ctx w))"
proof -
  obtain out where
    "SubGraphExecutor_do (next_component d) (ctx w) = (out, Inl (Exception e))"
    using do_raises [OF assms(2), of e post "ctx w"] assms(1) by auto
  moreover have "next_component d \<noteq> []" using assms(1) by simp
  ultimately show ?thesis
    by (simp add: invoke_outcome invoke_ctx invoke_stdout)
qed

theorem chain_exception_leaves_handler_witness:
  "next_component tool_late = [MCPSetToolResult (PInt 1)] @ Raising ''late'' # []
   \<and> list_all (\<lambda>n. \<not> raises n) [MCPSetToolResult (PInt 1)]
   \<and> fst (tool_handler tool_late [] world_s) = Inl (Exception ''late'')
   \<and> ctx (snd (tool_handler tool_late [] world_s)) = ctx world_s"
proof -
  have h1: "next_component tool_late = [MCPSetToolResult (PInt 1)] @ Raising ''late'' # []"
    by (simp add: tool_late_def)
  have h2: "list_all (\<lambda>n. \<not> raises n) [MCPSetToolResult (PInt 1)]" by simp
  show ?thesis
    using chain_exception_leaves_handler [OF h1 h2, of Tool "[]" world_s] h1 by simp
qed

text \<open>
  C5, as stated, fails: the handler of the tool \<open>boom\<close>, whose chain is one raising
  component, ends with that exception, not with an empty result, and nothing is
  printed.
\<close>

theorem chain_exception_counterexample:
  "fst (tool_handler tool_boom [] world_s) = Inl (Exception ''boom'')
   \<and> stdout (snd (tool_handler tool_boom [] world_s)) = []"
  by (simp add: tool_handler_def tool_boom_def world_s_def world0_def print_def Let_def)

text \<open>
  C6, as the code has it. A handler whose component has no chain returns \<open>None\<close>
  and raises nothing; nothing is printed, and the process-wide context is unchanged.
\<close>

theorem no_chain_returns_none:
  assumes "next_component d = []"
  shows "fst (invoke k d kw w) = Inr PNone
       \<and> stdout (snd (invoke k d kw w)) = stdout w
       \<and> ctx (snd (invoke k d kw w)) = ctx w"
  using assms by (simp add: invoke_outcome invoke_ctx invoke_stdout)

theorem no_chain_returns_none_witness:
  "next_component tool_nochain = []
   \<and> fst (tool_handler tool_nochain [(''x'', PInt 1)] world_s) = Inr PNone
   \<and> stdout (snd (tool_handler tool_nochain [(''x'', PInt 1)] world_s)) = stdout world_s"
proof -
  have h: "next_component tool_nochain = []" by (simp add: tool_nochain_def)
  show ?thesis
    using no_chain_returns_none [OF h, of Tool "[(''x'', PInt 1)]" world_s] h by simp
qed

text \<open>
  C6, as stated, fails in its last part: the call of the tool \<open>idle\<close>, which has no
  chain, returns \<open>None\<close> and leaves the printed lines empty: no error is logged.
\<close>

theorem no_chain_counterexample:
  "fst (tool_handler tool_nochain [] world_s) = Inr PNone
   \<and> stdout (snd (tool_handler tool_nochain [] world_s)) = []"
  by (simp add: tool_handler_def tool_nochain_def world_s_def world0_def Let_def)

end
